theory Spec2Isabelle
  imports Main
begin

section \<open>Strings and Python values\<close>

text \<open>
  A Python \<open>str\<close> is modelled as an Isabelle \<open>string\<close>: a list of characters with code
  points below 256. The character classes below are those of Python's \<open>re\<close> module and of
  \<open>str.lower\<close>, restricted to that range; the word class \<open>\w\<close> is taken on ASCII.
\<close>

definition backslash :: char where
  "backslash = CHR 0x5C"

definition newline :: char where
  "newline = CHR 0x0A"

definition is_digit :: "char \<Rightarrow> bool" where
  "is_digit c = (c \<in> set ''0123456789'')"

definition is_word :: "char \<Rightarrow> bool" where
  "is_word c = (c \<in> set ''abcdefghijklmnopqrstuvwxyzABCDEFGHIJKLMNOPQRSTUVWXYZ0123456789_'')"

definition lower_char :: "char \<Rightarrow> char" where
  "lower_char c = (let n = (of_char c :: nat) in
     if (65 \<le> n \<and> n \<le> 90) \<or> (192 \<le> n \<and> n \<le> 222 \<and> n \<noteq> 215)
     then char_of (n + 32) else c)"

definition lower :: "string \<Rightarrow> string" where
  "lower s = map lower_char s"

text \<open>
  The values a handler returns and a path parameter holds. A float is kept as the decimal
  literal it was parsed from: its binary value is not modelled. \<open>PObj\<close> is any other
  object (a set, an instance of a user's class), named by its class.
\<close>

datatype pyval =
    PNone
  | PBool bool
  | PInt int
  | PFloat string
  | PStr string
  | PList "pyval list"
  | PTuple "pyval list"
  | PDict "(string \<times> pyval) list"
  | PObj string

text \<open>
  \<open>int(s)\<close> on a string: surrounding whitespace is stripped, one sign is allowed, and the
  digits may be separated by single underscores. \<open>None\<close> is the \<open>ValueError\<close>. The
  whitespace \<open>int\<close> strips is the ASCII whitespace (9 to 13 and the space) and, below 256,
  the two characters 0x85 and 0xA0; it does not strip 0x1C to 0x1F. A literal with more
  digits than \<open>sys.int_info.default_max_str_digits\<close> is a \<open>ValueError\<close> as well: the
  limit counts the digit characters, leading zeros included, and not the sign, the
  underscores or the whitespace.
\<close>

definition is_space :: "char \<Rightarrow> bool" where
  "is_space c = (let n = (of_char c :: nat) in
     (9 \<le> n \<and> n \<le> 13) \<or> n = 32 \<or> n = 133 \<or> n = 160)"

definition strip :: "string \<Rightarrow> string" where
  "strip s = rev (dropWhile is_space (rev (dropWhile is_space s)))"

definition digit_val :: "char \<Rightarrow> int" where
  "digit_val c = int (of_char c) - 48"

definition digits_val :: "string \<Rightarrow> int" where
  "digits_val ds = foldl (\<lambda>a c. 10 * a + digit_val c) 0 ds"

fun digit_groups :: "string \<Rightarrow> bool" where
  "digit_groups [] = False"
| "digit_groups [c] = is_digit c"
| "digit_groups (c # d # r) =
     (if is_digit c then
        (if d = CHR ''_'' then digit_groups r else digit_groups (d # r))
      else False)"

definition default_max_str_digits :: nat where
  "default_max_str_digits = 4300"

definition unsigned_int :: "string \<Rightarrow> int option" where
  "unsigned_int s =
     (if digit_groups s \<and> length (filter is_digit s) \<le> default_max_str_digits
      then Some (digits_val (filter is_digit s)) else None)"

definition py_int :: "string \<Rightarrow> int option" where
  "py_int s =
     (case strip s of
        [] \<Rightarrow> None
      | c # r \<Rightarrow>
          if c = CHR ''+'' then unsigned_int r
          else if c = CHR ''-'' then map_option uminus (unsigned_int r)
          else unsigned_int (c # r))"

text \<open>
  \<open>float(s)\<close>: the model recognises the unsigned decimal literals, digits with an optional
  fractional part, which is every string the \<open>float\<close> placeholder's own character class
  can capture. On any other string the model takes the \<open>ValueError\<close> branch.
\<close>

definition py_float :: "string \<Rightarrow> string option" where
  "py_float s =
     (let whole = takeWhile is_digit s; r = dropWhile is_digit s in
      if whole = [] then None
      else if r = [] then Some s
      else if hd r = CHR ''.'' \<and> list_all is_digit (tl r) then Some s
      else None)"

section \<open>Path templates (src/router.py, Route._compile_pattern)\<close>

subsection \<open>Scanning for placeholders\<close>

text \<open>
  \<open>type_pattern = \{(\w+):(\w+)\}\<close> and \<open>basic_pattern = \{(\w+)\}\<close>, tried at the head of a
  string. Neither \<open>:\<close> nor \<open>}\<close> is a word character, so the greedy \<open>\w+\<close> never backtracks
  to a success: the match is decided by the maximal runs of word characters.
\<close>

definition typed_at :: "string \<Rightarrow> ((string \<times> string) \<times> string) option" where
  "typed_at s =
     (case s of
        [] \<Rightarrow> None
      | c # r \<Rightarrow>
          if c \<noteq> CHR ''{'' \<or> takeWhile is_word r = [] then None
          else (case dropWhile is_word r of
                  [] \<Rightarrow> None
                | d # r2 \<Rightarrow>
                    if d \<noteq> CHR '':'' \<or> takeWhile is_word r2 = [] then None
                    else (case dropWhile is_word r2 of
                            [] \<Rightarrow> None
                          | e # r3 \<Rightarrow>
                              if e = CHR ''}''
                              then Some ((takeWhile is_word r, takeWhile is_word r2), r3)
                              else None)))"

definition basic_at :: "string \<Rightarrow> (string \<times> string) option" where
  "basic_at s =
     (case s of
        [] \<Rightarrow> None
      | c # r \<Rightarrow>
          if c \<noteq> CHR ''{'' \<or> takeWhile is_word r = [] then None
          else (case dropWhile is_word r of
                  [] \<Rightarrow> None
                | e # r3 \<Rightarrow>
                    if e = CHR ''}'' then Some (takeWhile is_word r, r3) else None))"

lemma typed_at_shorter: "typed_at s = Some (g, rest) \<Longrightarrow> length rest < length s"
proof -
  assume a: "typed_at s = Some (g, rest)"
  have dw: "\<And>xs ys. dropWhile is_word xs = ys \<Longrightarrow> length ys \<le> length xs"
    using length_dropWhile_le by blast
  from a obtain c r d r2 e where
    s: "s = c # r" and r: "dropWhile is_word r = d # r2"
    and r2: "dropWhile is_word r2 = e # rest"
    by (auto simp: typed_at_def split: list.splits if_splits)
  from dw[OF r] dw[OF r2] s show ?thesis by simp
qed

lemma basic_at_shorter: "basic_at s = Some (g, rest) \<Longrightarrow> length rest < length s"
proof -
  assume a: "basic_at s = Some (g, rest)"
  from a obtain c r e where
    s: "s = c # r" and r: "dropWhile is_word r = e # rest"
    by (auto simp: basic_at_def split: list.splits if_splits)
  have "length (e # rest) \<le> length r"
    using length_dropWhile_le[of is_word r] r by simp
  with s show ?thesis by simp
qed

text \<open>\<open>pattern.finditer(s)\<close>: the non-overlapping matches, left to right.\<close>

function finditer_typed :: "string \<Rightarrow> (string \<times> string) list" where
  "finditer_typed s =
     (if s = [] then []
      else (case typed_at s of
              Some (g, rest) \<Rightarrow> g # finditer_typed rest
            | None \<Rightarrow> finditer_typed (tl s)))"
  by pat_completeness auto
termination
  by (relation "measure length") (auto simp: typed_at_shorter)

function finditer_basic :: "string \<Rightarrow> string list" where
  "finditer_basic s =
     (if s = [] then []
      else (case basic_at s of
              Some (g, rest) \<Rightarrow> g # finditer_basic rest
            | None \<Rightarrow> finditer_basic (tl s)))"
  by pat_completeness auto
termination
  by (relation "measure length") (auto simp: basic_at_shorter)

text \<open>
  \<open>s.replace(old, new)\<close>: every non-overlapping occurrence, left to right. The compiler
  only calls it with an \<open>old\<close> that starts with a brace; for the empty \<open>old\<close> the model
  returns the string as it is.
\<close>

function replace :: "string \<Rightarrow> string \<Rightarrow> string \<Rightarrow> string" where
  "replace old new s =
     (if old = [] \<or> s = [] then s
      else if take (length old) s = old
      then new @ replace old new (drop (length old) s)
      else hd s # replace old new (tl s))"
  by pat_completeness auto
termination
  by (relation "measure (\<lambda>(old, new, s). length s)") auto

subsection \<open>The regular expressions the compiler can produce\<close>

text \<open>
  Python's \<open>re\<close> module is a library, not part of the repository. It is modelled on the
  fragment the compiler produces: literal characters, the dot, and named groups over the
  four character classes of \<open>type_map\<close>. A regular expression outside this fragment is
  reported as \<open>NotModelled\<close>; \<open>ReError\<close> is the \<open>re.error\<close> that \<open>re.compile\<close> raises.
\<close>

datatype cset = Digit | NotSlash | HexHyphen | Dot

fun in_cset :: "cset \<Rightarrow> char \<Rightarrow> bool" where
  "in_cset Digit c = is_digit c"
| "in_cset NotSlash c = (c \<noteq> CHR ''/'')"
| "in_cset HexHyphen c = (c \<in> set ''0123456789abcdef-'')"
| "in_cset Dot c = (c = CHR ''.'')"

text \<open>\<open>Rep cs n\<close> is the greedy \<open>cs+\<close> (n = 1) or \<open>cs*\<close> (n = 0); \<open>Opt cs\<close> is \<open>cs?\<close>.\<close>

datatype piece = Rep cset nat | Opt cset

datatype item = Lit char | AnyChar | Group string "piece list"

datatype re_error = ReError | NotModelled

definition type_map :: "(string \<times> string) list" where
  "type_map =
     [(''int'', backslash # ''d+''),
      (''str'', ''[^/]+''),
      (''float'', backslash # ''d+'' @ backslash # ''.?'' @ backslash # ''d*''),
      (''uuid'', ''[0-9a-f-]+'')]"

definition type_map_get :: "string \<Rightarrow> string" where
  "type_map_get t = (case map_of type_map t of Some r \<Rightarrow> r | None \<Rightarrow> ''[^/]+'')"

definition strip_prefix :: "string \<Rightarrow> string \<Rightarrow> string option" where
  "strip_prefix p s = (if take (length p) s = p then Some (drop (length p) s) else None)"

definition class_pieces :: "(string \<times> piece list) list" where
  "class_pieces =
     [(backslash # ''d+'' @ backslash # ''.?'' @ backslash # ''d*)'',
         [Rep Digit 1, Opt Dot, Rep Digit 0]),
      (backslash # ''d+)'', [Rep Digit 1]),
      (''[^/]+)'', [Rep NotSlash 1]),
      (''[0-9a-f-]+)'', [Rep HexHyphen 1])]"

fun parse_class :: "(string \<times> piece list) list \<Rightarrow> string \<Rightarrow> (piece list \<times> string) option" where
  "parse_class [] s = None"
| "parse_class ((txt, ps) # more) s =
     (case strip_prefix txt s of
        Some rest \<Rightarrow> Some (ps, rest)
      | None \<Rightarrow> parse_class more s)"

text \<open>
  A named group \<open>(?P<name>class)\<close> at the head of the string. A group name must be an
  identifier: one that starts with a digit is a \<open>re.error\<close>.
\<close>

definition parse_group :: "string \<Rightarrow> re_error + (item \<times> string)" where
  "parse_group s =
     (case strip_prefix ''(?P<'' s of
        None \<Rightarrow> Inl NotModelled
      | Some r \<Rightarrow>
          (let name = takeWhile is_word r in
           case dropWhile is_word r of
             [] \<Rightarrow> Inl NotModelled
           | c # r2 \<Rightarrow>
               if c \<noteq> CHR ''>'' \<or> name = [] then Inl NotModelled
               else if is_digit (hd name) then Inl ReError
               else (case parse_class class_pieces r2 of
                       None \<Rightarrow> Inl NotModelled
                     | Some (ps, rest) \<Rightarrow> Inr (Group name ps, rest))))"

definition plain_char :: "char \<Rightarrow> bool" where
  "plain_char c = (\<not> digit7 c \<and> c \<notin> set (backslash # ''.^$*+?{}[]|()''))"

lemma strip_prefix_length: "strip_prefix p s = Some r \<Longrightarrow> length r \<le> length s"
  by (auto simp: strip_prefix_def split: if_splits)

lemma parse_class_length: "parse_class tbl s = Some (ps, r) \<Longrightarrow> length r \<le> length s"
  by (induction tbl) (auto split: option.splits dest: strip_prefix_length)

lemma parse_group_shorter:
  assumes "parse_group s = Inr (it, rest)"
  shows "length rest < length s"
proof -
  from assms obtain r c r2 ps where
    a: "strip_prefix ''(?P<'' s = Some r" and b: "dropWhile is_word r = c # r2"
    and c: "parse_class class_pieces r2 = Some (ps, rest)"
    by (auto simp: parse_group_def Let_def split: option.splits list.splits if_splits)
  have "length (c # r2) \<le> length r"
    using length_dropWhile_le[of is_word r] b by simp
  with strip_prefix_length[OF a] parse_class_length[OF c] show ?thesis by simp
qed

function parse_items :: "string \<Rightarrow> re_error + item list" where
  "parse_items s =
     (case s of
        [] \<Rightarrow> Inr []
      | c # cs \<Rightarrow>
          if c = CHR ''('' then
            (case parse_group s of
               Inl e \<Rightarrow> Inl e
             | Inr (it, rest) \<Rightarrow>
                 (case parse_items rest of
                    Inl e \<Rightarrow> Inl e
                  | Inr its \<Rightarrow> Inr (it # its)))
          else if c = CHR ''.'' then
            (case parse_items cs of Inl e \<Rightarrow> Inl e | Inr its \<Rightarrow> Inr (AnyChar # its))
          else if plain_char c then
            (case parse_items cs of Inl e \<Rightarrow> Inl e | Inr its \<Rightarrow> Inr (Lit c # its))
          else Inl NotModelled)"
  by pat_completeness auto
termination
  by (relation "measure length") (auto dest: parse_group_shorter)

fun group_names :: "item list \<Rightarrow> string list" where
  "group_names [] = []"
| "group_names (Group n ps # its) = n # group_names its"
| "group_names (it # its) = group_names its"

text \<open>
  \<open>re.compile\<close> of a source \<open>^body$\<close>: the two anchors are kept implicit in the matcher.
  Two groups of one name are a \<open>re.error\<close>.
\<close>

definition re_compile :: "string \<Rightarrow> re_error + item list" where
  "re_compile src =
     (case src of
        [] \<Rightarrow> Inl NotModelled
      | c # body \<Rightarrow>
          if c \<noteq> CHR ''^'' \<or> body = [] \<or> last body \<noteq> CHR ''$'' then Inl NotModelled
          else (case parse_items (butlast body) of
                  Inl e \<Rightarrow> Inl e
                | Inr its \<Rightarrow> if distinct (group_names its) then Inr its else Inl ReError))"

subsection \<open>Route._compile_pattern\<close>

fun dict_set :: "'k \<Rightarrow> 'v \<Rightarrow> ('k \<times> 'v) list \<Rightarrow> ('k \<times> 'v) list" where
  "dict_set k v [] = [(k, v)]"
| "dict_set k v ((k', v') # kvs) =
     (if k = k' then (k, v) # kvs else (k', v') # dict_set k v kvs)"

definition typed_step ::
  "(string \<times> string) list \<times> string \<Rightarrow> string \<times> string \<Rightarrow> (string \<times> string) list \<times> string" where
  "typed_step acc g =
     (case (acc, g) of
        ((param_types, path_regex), (param_name, param_type)) \<Rightarrow>
          (dict_set param_name param_type param_types,
           replace (''{'' @ param_name @ '':'' @ param_type @ ''}'')
                   (''(?P<'' @ param_name @ ''>'' @ type_map_get param_type @ '')'')
                   path_regex))"

definition basic_step :: "string \<Rightarrow> string \<Rightarrow> string" where
  "basic_step path_regex param_name =
     replace (''{'' @ param_name @ ''}'') (''(?P<'' @ param_name @ ''>[^/]+)'') path_regex"

text \<open>
  The regular expression source built by the two loops, and the declared types. The second
  loop iterates over the matches in the string as the first loop left it.
\<close>

definition pattern_source :: "string \<Rightarrow> string \<times> (string \<times> string) list" where
  "pattern_source p =
     (case foldl typed_step ([], p) (finditer_typed p) of
        (param_types, path_regex) \<Rightarrow>
          (''^'' @ foldl basic_step path_regex (finditer_basic path_regex) @ ''$'',
           param_types))"

definition compile_pattern :: "string \<Rightarrow> re_error + (item list \<times> (string \<times> string) list)" where
  "compile_pattern p =
     (case pattern_source p of
        (src, param_types) \<Rightarrow>
          (case re_compile src of
             Inl e \<Rightarrow> Inl e
           | Inr its \<Rightarrow> Inr (its, param_types)))"

section \<open>Matching (Python's re.match on a compiled pattern)\<close>

text \<open>
  The prefix lengths a group body can consume, in the order in which the backtracking
  matcher tries them: a greedy repetition tries its longest run first, an optional
  character is tried present before absent.
\<close>

fun ends :: "piece list \<Rightarrow> string \<Rightarrow> nat list" where
  "ends [] s = [0]"
| "ends (Rep cs mn # ps) s =
     concat (map (\<lambda>k. map (\<lambda>j. k + j) (ends ps (drop k s)))
                 (rev [mn ..< Suc (length (takeWhile (in_cset cs) s))]))"
| "ends (Opt cs # ps) s =
     (case s of
        [] \<Rightarrow> []
      | c # t \<Rightarrow> if in_cset cs c then map Suc (ends ps t) else []) @ ends ps s"

fun first_match :: "(nat \<Rightarrow> 'a option) \<Rightarrow> nat list \<Rightarrow> 'a option" where
  "first_match f [] = None"
| "first_match f (k # ks) = (case f k of Some r \<Rightarrow> Some r | None \<Rightarrow> first_match f ks)"

text \<open>
  The items are matched from the start of the path. At the end of the items stands the
  anchor \<open>$\<close>, which Python matches at the end of the string and also just before a
  newline that ends the string. The dot matches every character but the newline. The
  result is \<open>match.groupdict()\<close>: the captured text of every group, in group order.
\<close>

fun match_items :: "item list \<Rightarrow> string \<Rightarrow> (string \<times> string) list option" where
  "match_items [] s = (if s = [] \<or> s = [newline] then Some [] else None)"
| "match_items (Lit c # its) s =
     (case s of
        [] \<Rightarrow> None
      | d # t \<Rightarrow> if d = c then match_items its t else None)"
| "match_items (AnyChar # its) s =
     (case s of
        [] \<Rightarrow> None
      | d # t \<Rightarrow> if d \<noteq> newline then match_items its t else None)"
| "match_items (Group n ps # its) s =
     first_match
       (\<lambda>k. map_option (\<lambda>caps. (n, take k s) # caps) (match_items its (drop k s)))
       (ends ps s)"

section \<open>Routes (src/router.py, Route)\<close>

record route_config =
  cache_ttl :: int
  rate_limit :: int
  background_tasks :: "string list option"
  validate :: bool

definition RouteConfig :: route_config where
  "RouteConfig = \<lparr>cache_ttl = 0, rate_limit = 0, background_tasks = None, validate = True\<rparr>"

text \<open>The handler is an opaque reference: the router never looks inside it.\<close>

record 'h route =
  path :: string
  methods :: "string list"
  handler :: 'h
  config :: route_config
  pattern :: "item list"
  param_types :: "(string \<times> string) list"

text \<open>
  \<open>Route.__init__\<close>. A configuration object is always truthy, so \<open>config or RouteConfig()\<close>
  falls back to the default only for \<open>None\<close>.
\<close>

definition Route ::
  "string \<Rightarrow> string list \<Rightarrow> 'h \<Rightarrow> route_config option \<Rightarrow> re_error + 'h route" where
  "Route p ms h cfg =
     (case compile_pattern p of
        Inl e \<Rightarrow> Inl e
      | Inr (its, pts) \<Rightarrow>
          Inr \<lparr>path = p, methods = ms, handler = h,
               config = (case cfg of None \<Rightarrow> RouteConfig | Some c \<Rightarrow> c),
               pattern = its, param_types = pts\<rparr>)"

text \<open>
  The body of the \<open>try\<close> in \<open>Route.match\<close> for one captured value: a failed conversion
  keeps the string; a declared type other than int, float and bool converts nothing.
\<close>

definition convert_param :: "string \<Rightarrow> string \<Rightarrow> pyval" where
  "convert_param param_type v =
     (if param_type = ''int'' then
        (case py_int v of Some n \<Rightarrow> PInt n | None \<Rightarrow> PStr v)
      else if param_type = ''float'' then
        (case py_float v of Some f \<Rightarrow> PFloat f | None \<Rightarrow> PStr v)
      else if param_type = ''bool'' then
        PBool (lower v \<in> set [''true'', ''1'', ''yes''])
      else PStr v)"

definition convert_params ::
  "(string \<times> string) list \<Rightarrow> (string \<times> string) list \<Rightarrow> (string \<times> pyval) list" where
  "convert_params pts gd =
     map (\<lambda>(param_name, v).
            (param_name,
             case map_of pts param_name of
               Some param_type \<Rightarrow> convert_param param_type v
             | None \<Rightarrow> PStr v)) gd"

definition match_route :: "'h route \<Rightarrow> string \<Rightarrow> string \<Rightarrow> (string \<times> pyval) list option" where
  "match_route rt p m =
     (if m \<notin> set (methods rt) then None
      else (case match_items (pattern rt) p of
              None \<Rightarrow> None
            | Some gd \<Rightarrow> Some (convert_params (param_types rt) gd)))"

section \<open>The router (src/router.py, Router)\<close>

type_synonym 'h found = "'h \<times> (string \<times> pyval) list \<times> route_config"

record 'h router =
  routes :: "'h route list"
  route_cache :: "string \<times> string \<rightharpoonup> 'h found"

definition Router :: "'h router" where
  "Router = \<lparr>routes = [], route_cache = Map.empty\<rparr>"

text \<open>
  \<open>Router.add_route\<close>. The keyword arguments are taken as the configuration record they
  build. When the constructor of the route raises, nothing has been appended or cleared.
\<close>

definition add_route ::
  "'h router \<Rightarrow> string \<Rightarrow> string list \<Rightarrow> 'h \<Rightarrow> route_config \<Rightarrow> re_error + 'h router" where
  "add_route r p ms h cfg =
     (case Route p ms h (Some cfg) of
        Inl e \<Rightarrow> Inl e
      | Inr rt \<Rightarrow> Inr (r\<lparr>routes := routes r @ [rt], route_cache := Map.empty\<rparr>))"

text \<open>
  The loop of \<open>find_route\<close> over the routes. Beside the result it returns how many times
  \<open>route.match\<close> was called: a counter on the scan, which the program itself does not keep.
\<close>

fun scan_routes :: "'h route list \<Rightarrow> string \<Rightarrow> string \<Rightarrow> 'h found option \<times> nat" where
  "scan_routes [] p m = (None, 0)"
| "scan_routes (rt # rts) p m =
     (case match_route rt p m of
        Some params \<Rightarrow> (Some (handler rt, params, config rt), 1)
      | None \<Rightarrow> (case scan_routes rts p m of (res, n) \<Rightarrow> (res, Suc n)))"

text \<open>
  \<open>Router.find_route\<close>: the result, the router afterwards, and the number of calls of
  \<open>route.match\<close> it made.
\<close>

definition find_route ::
  "'h router \<Rightarrow> string \<Rightarrow> string \<Rightarrow> 'h found option \<times> 'h router \<times> nat" where
  "find_route r p m =
     (case route_cache r (p, m) of
        Some res \<Rightarrow> (Some res, r, 0)
      | None \<Rightarrow>
          (case scan_routes (routes r) p m of
             (Some res, n) \<Rightarrow> (Some res, r\<lparr>route_cache := (route_cache r)((p, m) \<mapsto> res)\<rparr>, n)
           | (None, n) \<Rightarrow> (None, r, n)))"

section \<open>Requests, responses and failures (src/request.py, src/response.py)\<close>

record request =
  req_method :: string
  req_path :: string
  req_headers :: "(string \<times> string) list"
  path_params :: "(string \<times> pyval) list"

text \<open>
  A response with the name of its class. The timestamp of the constructor is a reading of
  the clock and is left out.
\<close>

record response =
  resp_class :: string
  content :: pyval
  status_code :: int
  headers :: "(string \<times> string) list"
  media_type :: string

definition JSONResponse :: "pyval \<Rightarrow> int \<Rightarrow> response" where
  "JSONResponse c code =
     \<lparr>resp_class = ''JSONResponse'', content = c, status_code = code, headers = [],
      media_type = ''application/json''\<rparr>"

definition TextResponse :: "string \<Rightarrow> int \<Rightarrow> response" where
  "TextResponse c code =
     \<lparr>resp_class = ''TextResponse'', content = PStr c, status_code = code, headers = [],
      media_type = ''text/plain; charset=utf-8''\<rparr>"

text \<open>
  A raised exception: its class, the rest of the method resolution order of the class, and
  \<open>str(exc)\<close>. The attributes \<open>exc_status\<close> and \<open>exc_detail\<close> are those of an HTTPException.
\<close>

record exn =
  exc_class :: string
  exc_bases :: "string list"
  exc_text :: string
  exc_status :: int
  exc_detail :: string

definition builtin_exn :: "string \<Rightarrow> string \<Rightarrow> exn" where
  "builtin_exn cls txt =
     \<lparr>exc_class = cls, exc_bases = [''Exception'', ''BaseException'', ''object''],
      exc_text = txt, exc_status = 0, exc_detail = []\<rparr>"

text \<open>
  Modelled from the spec: src/exceptions.py, which declares HTTPException, is not among the
  sources. The spec describes it as the failure category that carries its own status code
  and detail message; app.py constructs it as \<open>HTTPException(status_code, detail)\<close>. Its
  text is taken to be the detail.
\<close>

definition HTTPException :: "int \<Rightarrow> string \<Rightarrow> exn" where
  "HTTPException code det =
     \<lparr>exc_class = ''HTTPException'', exc_bases = [''Exception'', ''BaseException'', ''object''],
      exc_text = det, exc_status = code, exc_detail = det\<rparr>"

definition isinstance :: "exn \<Rightarrow> string \<Rightarrow> bool" where
  "isinstance exc cls = (cls \<in> set (exc_class exc # exc_bases exc))"

section \<open>The application (src/app.py, FlashAPI)\<close>

subsection \<open>Result normalization\<close>

datatype result = RResp response | RVal pyval

text \<open>
  \<open>FlashAPI._create_response\<close>. app.py imports only \<open>Response\<close> and \<open>JSONResponse\<close> from
  the response module, so evaluating the name \<open>TextResponse\<close> in the third branch raises
  a NameError.
\<close>

fun create_response :: "result \<Rightarrow> exn + response" where
  "create_response (RResp r) = Inr r"
| "create_response (RVal (PDict d)) = Inr (JSONResponse (PDict d) 200)"
| "create_response (RVal (PList l)) = Inr (JSONResponse (PList l) 200)"
| "create_response (RVal (PStr s)) =
     Inl (builtin_exn ''NameError'' ''name 'TextResponse' is not defined'')"
| "create_response (RVal v) = Inr (JSONResponse (PDict [(''result'', v)]) 200)"

subsection \<open>Exception handlers\<close>

text \<open>
  The keys of \<open>exception_handlers\<close>: an exception class or a status code. The dictionary
  keeps its keys in insertion order; assigning to a key that is present keeps its place.
\<close>

datatype exc_key = KClass string | KStatus int

type_synonym exc_handler = "exn \<Rightarrow> exn + response"

definition handle_http_exception :: exc_handler where
  "handle_http_exception exc =
     Inr (JSONResponse
            (PDict [(''error'', PStr (exc_detail exc)), (''status_code'', PInt (exc_status exc))])
            (exc_status exc))"

definition handle_404_exception :: exc_handler where
  "handle_404_exception exc =
     Inr (JSONResponse (PDict [(''error'', PStr ''Not Found''), (''message'', PStr (exc_text exc))]) 404)"

definition handle_500_exception :: exc_handler where
  "handle_500_exception exc =
     Inr (JSONResponse (PDict [(''error'', PStr ''Internal Server Error'')]) 500)"

text \<open>
  \<open>FlashAPI._handle_exception\<close>. The test \<open>isinstance(exc, exc_class)\<close> is evaluated first
  for every key; when the key is a status code, not a class, Python raises a TypeError
  there, before the comparison with \<open>type(exc)\<close> is reached.
\<close>

fun handle_exception :: "(exc_key \<times> exc_handler) list \<Rightarrow> exn \<Rightarrow> exn + response" where
  "handle_exception [] exc =
     Inr (JSONResponse
            (PDict [(''error'', PStr ''Internal Server Error''), (''message'', PStr (exc_text exc))])
            500)"
| "handle_exception ((KClass cls, h) # hs) exc =
     (if isinstance exc cls \<or> cls = exc_class exc then h exc else handle_exception hs exc)"
| "handle_exception ((KStatus n, h) # hs) exc =
     Inl (builtin_exn ''TypeError'' ''isinstance() arg 2 must be a type, a tuple of types, or a union'')"

subsection \<open>Middleware and handlers\<close>

text \<open>
  An interceptor with its optional hooks; \<open>None\<close> is a class without the attribute. A hook
  raises (\<open>Inl\<close>) or returns; a return value that is \<open>None\<close> falls back to the working
  request or response. Hooks are functions of the request: one that changes the request
  in place is modelled as returning the changed request.
\<close>

record middleware =
  mw_name :: string
  before_request :: "(request \<Rightarrow> exn + request option) option"
  after_request :: "(request \<Rightarrow> response \<Rightarrow> exn + response option) option"

text \<open>The pre-processing loop: the hooks called, the working request, and the failure raised.\<close>

fun run_pre :: "middleware list \<Rightarrow> request \<Rightarrow> string list \<times> request \<times> exn option" where
  "run_pre [] req = ([], req, None)"
| "run_pre (mw # mws) req =
     (case before_request mw of
        None \<Rightarrow> run_pre mws req
      | Some hook \<Rightarrow>
          (case hook req of
             Inl e \<Rightarrow> ([mw_name mw], req, Some e)
           | Inr ret \<Rightarrow>
               (case run_pre mws (case ret of None \<Rightarrow> req | Some req' \<Rightarrow> req') of
                  (calls, r, e) \<Rightarrow> (mw_name mw # calls, r, e))))"

fun post_loop :: "middleware list \<Rightarrow> request \<Rightarrow> response \<Rightarrow> string list \<times> (exn + response)" where
  "post_loop [] req resp = ([], Inr resp)"
| "post_loop (mw # mws) req resp =
     (case after_request mw of
        None \<Rightarrow> post_loop mws req resp
      | Some hook \<Rightarrow>
          (case hook req resp of
             Inl e \<Rightarrow> ([mw_name mw], Inl e)
           | Inr ret \<Rightarrow>
               (case post_loop mws req (case ret of None \<Rightarrow> resp | Some resp' \<Rightarrow> resp') of
                  (calls, res) \<Rightarrow> (mw_name mw # calls, res))))"

text \<open>The post-processing loop runs over \<open>reversed(self.middleware)\<close>.\<close>

definition run_post ::
  "middleware list \<Rightarrow> request \<Rightarrow> response \<Rightarrow> string list \<times> (exn + response)" where
  "run_post mws req resp = post_loop (rev mws) req resp"

text \<open>
  A handler: the parameters of its signature, whether it is a coroutine function, and what
  calling it with keyword arguments does.
\<close>

datatype annotation = NoAnnotation | AnnRequest | AnnOther

datatype arg = APath pyval | AReq request

record handler_fn =
  h_params :: "(string \<times> annotation) list"
  h_async :: bool
  h_call :: "(string \<times> arg) list \<Rightarrow> exn + result"

fun prepare_handler_args ::
  "request \<Rightarrow> (string \<times> annotation) list \<Rightarrow> (string \<times> pyval) list \<Rightarrow> (string \<times> arg) list" where
  "prepare_handler_args req [] pp = []"
| "prepare_handler_args req ((param_name, ann) # ps) pp =
     (case map_of pp param_name of
        Some v \<Rightarrow> (param_name, APath v) # prepare_handler_args req ps pp
      | None \<Rightarrow>
          if param_name = ''request'' then (param_name, AReq req) # prepare_handler_args req ps pp
          else if ann = AnnRequest then (param_name, AReq req) # prepare_handler_args req ps pp
          else prepare_handler_args req ps pp)"

text \<open>
  A coroutine handler is awaited with the keyword arguments. Any other handler goes through
  \<open>run_in_executor(None, handler, **handler_args)\<close>, which takes no keyword arguments of
  its own: with a non-empty \<open>handler_args\<close> the call raises a TypeError.
\<close>

definition invoke :: "handler_fn \<Rightarrow> (string \<times> arg) list \<Rightarrow> exn + result" where
  "invoke h args =
     (if h_async h then h_call h args
      else if args = [] then h_call h []
      else Inl (builtin_exn ''TypeError'' ''run_in_executor() got an unexpected keyword argument''))"

subsection \<open>The dispatcher\<close>

record app =
  router :: "handler_fn router"
  app_middleware :: "middleware list"
  exception_handlers :: "(exc_key \<times> exc_handler) list"

definition add_exception_handler :: "app \<Rightarrow> exc_key \<Rightarrow> exc_handler \<Rightarrow> app" where
  "add_exception_handler a k h = a\<lparr>exception_handlers := dict_set k h (exception_handlers a)\<rparr>"

definition setup_default_handlers :: "app \<Rightarrow> app" where
  "setup_default_handlers a =
     add_exception_handler
       (add_exception_handler
          (add_exception_handler a (KClass ''HTTPException'') handle_http_exception)
          (KStatus 500) handle_500_exception)
       (KStatus 404) handle_404_exception"

definition FlashAPI :: app where
  "FlashAPI =
     setup_default_handlers \<lparr>router = Router, app_middleware = [], exception_handlers = []\<rparr>"

definition add_middleware :: "app \<Rightarrow> middleware \<Rightarrow> app" where
  "add_middleware a mw = a\<lparr>app_middleware := app_middleware a @ [mw]\<rparr>"

definition app_add_route ::
  "app \<Rightarrow> string \<Rightarrow> string list \<Rightarrow> handler_fn \<Rightarrow> route_config \<Rightarrow> re_error + app" where
  "app_add_route a p ms h cfg =
     (case add_route (router a) p ms h cfg of
        Inl e \<Rightarrow> Inl e
      | Inr r \<Rightarrow> Inr (a\<lparr>router := r\<rparr>))"

text \<open>
  What json.dumps accepts: emitting a JSONResponse encodes its content first, and a content
  that cannot be encoded raises a TypeError before anything is sent.
\<close>

fun json_ok :: "pyval \<Rightarrow> bool" where
  "json_ok (PList xs) = list_all json_ok xs"
| "json_ok (PTuple xs) = list_all json_ok xs"
| "json_ok (PDict kvs) = list_all (\<lambda>kv. json_ok (snd kv)) kvs"
| "json_ok (PObj c) = False"
| "json_ok v = True"

datatype outcome = Sent response | Escaped exn

definition emit :: "response \<Rightarrow> outcome" where
  "emit resp =
     (if resp_class resp = ''JSONResponse'' \<and> \<not> json_ok (content resp)
      then Escaped (builtin_exn ''TypeError'' ''Object is not JSON serializable'')
      else Sent resp)"

text \<open>
  The body of the \<open>try\<close> after the pre-processing loop: routing, argument binding, the
  call of the handler and the normalization of its result. It returns the router as the
  lookup left it and the request with its path parameters.
\<close>

definition route_and_call ::
  "handler_fn router \<Rightarrow> request \<Rightarrow> (exn + response) \<times> handler_fn router \<times> request" where
  "route_and_call rtr req =
     (case find_route rtr (req_path req) (req_method req) of
        (None, rtr', n) \<Rightarrow>
          (Inl (HTTPException 404 (''Route '' @ req_path req @ '' not found'')), rtr', req)
      | (Some (h, pp, cfg), rtr', n) \<Rightarrow>
          (let req' = req\<lparr>path_params := pp\<rparr> in
           (case invoke h (prepare_handler_args req' (h_params h) pp) of
              Inl e \<Rightarrow> Inl e
            | Inr res \<Rightarrow> create_response res,
            rtr', req')))"

record dispatch =
  outcome :: outcome
  app_after :: app
  pre_calls :: "string list"
  post_calls :: "string list"

text \<open>
  \<open>FlashAPI._handle_http_request\<close>. \<open>except Exception\<close> catches a failure whose class
  derives from Exception; what \<open>_handle_exception\<close> raises itself, what a post-hook raises
  and what the emission raises is outside the \<open>try\<close> and leaves the function.
\<close>

definition handle_http_request :: "app \<Rightarrow> request \<Rightarrow> dispatch" where
  "handle_http_request a req0 =
     (case run_pre (app_middleware a) req0 of
        (pre, req1, raised) \<Rightarrow>
          (case (case raised of
                   Some e \<Rightarrow> (Inl e, router a, req1)
                 | None \<Rightarrow> route_and_call (router a) req1) of
             (body, rtr, req2) \<Rightarrow>
               (case (case body of
                        Inr resp \<Rightarrow> Inr resp
                      | Inl e \<Rightarrow>
                          if isinstance e ''Exception''
                          then handle_exception (exception_handlers a) e
                          else Inl e) of
                  Inl e \<Rightarrow>
                    \<lparr>outcome = Escaped e, app_after = a\<lparr>router := rtr\<rparr>,
                     pre_calls = pre, post_calls = []\<rparr>
                | Inr resp \<Rightarrow>
                    (case run_post (app_middleware a) req2 resp of
                       (post, Inl e) \<Rightarrow>
                         \<lparr>outcome = Escaped e, app_after = a\<lparr>router := rtr\<rparr>,
                          pre_calls = pre, post_calls = post\<rparr>
                     | (post, Inr resp') \<Rightarrow>
                         \<lparr>outcome = emit resp', app_after = a\<lparr>router := rtr\<rparr>,
                          pre_calls = pre, post_calls = post\<rparr>))))"

section \<open>Fixtures\<close>

text \<open>Two routes of a test table: a placeholder route and a literal route under \<open>/a\<close>.\<close>

definition route_a_x :: "string route" where
  "route_a_x =
     \<lparr>path = ''/a/{x}'', methods = [''GET''], handler = ''first'', config = RouteConfig,
      pattern = [Lit CHR ''/'', Lit CHR ''a'', Lit CHR ''/'', Group ''x'' [Rep NotSlash 1]],
      param_types = []\<rparr>"

definition route_a_fixed :: "string route" where
  "route_a_fixed =
     \<lparr>path = ''/a/fixed'', methods = [''GET''], handler = ''second'', config = RouteConfig,
      pattern = [Lit CHR ''/'', Lit CHR ''a'', Lit CHR ''/'', Lit CHR ''f'', Lit CHR ''i'',
                 Lit CHR ''x'', Lit CHR ''e'', Lit CHR ''d''],
      param_types = []\<rparr>"

definition router_a_x :: "string router" where
  "router_a_x = \<lparr>routes = [route_a_x], route_cache = Map.empty\<rparr>"

definition router_two :: "string router" where
  "router_two = \<lparr>routes = [route_a_x, route_a_fixed], route_cache = Map.empty\<rparr>"

section \<open>The router: lemmas\<close>

lemma Route_a_x: "Route ''/a/{x}'' [''GET''] ''first'' (Some RouteConfig) = Inr route_a_x"
  by code_simp

lemma Route_a_fixed: "Route ''/a/fixed'' [''GET''] ''second'' (Some RouteConfig) = Inr route_a_fixed"
  by code_simp

lemma add_route_a_x: "add_route Router ''/a/{x}'' [''GET''] ''first'' RouteConfig = Inr router_a_x"
  by (simp add: add_route_def Route_a_x Router_def router_a_x_def)

lemma add_route_a_fixed:
  "add_route router_a_x ''/a/fixed'' [''GET''] ''second'' RouteConfig = Inr router_two"
  by (simp add: add_route_def Route_a_fixed router_a_x_def router_two_def)

lemma match_a_x_fixed: "match_route route_a_x ''/a/fixed'' ''GET'' = Some [(''x'', PStr ''fixed'')]"
  by code_simp

lemma match_a_fixed_fixed: "match_route route_a_fixed ''/a/fixed'' ''GET'' = Some []"
  by code_simp

lemma match_a_x_b: "match_route route_a_x ''/b'' ''GET'' = None"
  by code_simp

lemma match_a_fixed_b: "match_route route_a_fixed ''/b'' ''GET'' = None"
  by code_simp

lemma route_a_x_sel: "handler route_a_x = ''first''" "config route_a_x = RouteConfig"
  by (simp_all add: route_a_x_def)

lemma scan_routes_miss:
  "fst (scan_routes rs p m) = None \<Longrightarrow> scan_routes rs p m = (None, length rs)"
  by (induction rs) (auto split: option.splits prod.splits)

lemma scan_routes_first:
  "\<forall>x \<in> set pre. match_route x p m = None \<Longrightarrow> match_route rt p m = Some ps \<Longrightarrow>
   scan_routes (pre @ rt # post) p m = (Some (handler rt, ps, config rt), Suc (length pre))"
  by (induction pre) (auto split: option.splits prod.splits)

lemma scan_two_b: "scan_routes (routes router_two) ''/b'' ''GET'' = (None, 2)"
  by (simp add: router_two_def match_a_x_b match_a_fixed_b)

section \<open>The router: claims\<close>

text \<open>
  C4, as the code has it. When the key is not cached and the scan of the whole table finds
  no route, \<open>find_route\<close> returns no match and leaves the router as it was, the cache
  included: the miss is not memoized. It has called \<open>route.match\<close> once for every route,
  and the same call on the router it returns does the same again.
\<close>

theorem find_route_miss_not_memoized:
  assumes "route_cache r (p, m) = None" and "fst (scan_routes (routes r) p m) = None"
  shows "find_route r p m = (None, r, length (routes r))"
  using assms scan_routes_miss[of "routes r" p m] by (simp add: find_route_def)

theorem find_route_miss_not_memoized_witness:
  "route_cache router_two (''/b'', ''GET'') = None \<and>
   fst (scan_routes (routes router_two) ''/b'' ''GET'') = None \<and>
   find_route router_two ''/b'' ''GET'' = (None, router_two, 2)"
proof -
  have c: "route_cache router_two (''/b'', ''GET'') = None"
    by (simp add: router_two_def)
  have s: "fst (scan_routes (routes router_two) ''/b'' ''GET'') = None"
    by (simp add: scan_two_b)
  have l: "length (routes router_two) = 2"
    by (simp add: router_two_def)
  from find_route_miss_not_memoized[OF c s] c s l show ?thesis by simp
qed

text \<open>
  C4, as the claim states it, fails on the two-route table: after a cold miss on
  \<open>/b\<close> the cache holds no entry for the key, and the second lookup on the router the
  first one returned again calls \<open>route.match\<close> on both routes.
\<close>

theorem find_route_miss_memoized_counterexample:
  "fst (find_route router_two ''/b'' ''GET'') = None \<and>
   route_cache (fst (snd (find_route router_two ''/b'' ''GET''))) (''/b'', ''GET'') = None \<and>
   snd (snd (find_route (fst (snd (find_route router_two ''/b'' ''GET''))) ''/b'' ''GET'')) = 2"
proof -
  have c: "route_cache router_two (''/b'', ''GET'') = None"
    by (simp add: router_two_def)
  have f: "find_route router_two ''/b'' ''GET'' = (None, router_two, 2)"
    by (simp add: find_route_def c scan_two_b)
  show ?thesis by (simp add: f c)
qed

text \<open>
  C5. On an uncached key \<open>find_route\<close> scans the routes in insertion order: when every
  route before \<open>rt\<close> fails to match and \<open>rt\<close> matches with parameters \<open>ps\<close>, the result is
  the handler, parameters and configuration of \<open>rt\<close>, whatever the later routes are; the
  result is stored in the cache under the key, and \<open>route.match\<close> has been called on the
  routes up to \<open>rt\<close> only.
\<close>

theorem find_route_first_match:
  assumes "route_cache r (p, m) = None" and "routes r = pre @ rt # post"
    and "\<forall>x \<in> set pre. match_route x p m = None" and "match_route rt p m = Some ps"
  shows "find_route r p m =
    (Some (handler rt, ps, config rt),
     r\<lparr>route_cache := (route_cache r)((p, m) \<mapsto> (handler rt, ps, config rt))\<rparr>,
     Suc (length pre))"
  using assms scan_routes_first[of pre p m rt ps post] by (simp add: find_route_def)

text \<open>
  The two-route fixture of C5: \<open>/a/{x}\<close> registered before \<open>/a/fixed\<close>. Both routes match
  \<open>/a/fixed\<close>, and the lookup returns the first one, with \<open>x\<close> bound to \<open>fixed\<close>.
\<close>

theorem find_route_first_match_witness:
  "add_route Router ''/a/{x}'' [''GET''] ''first'' RouteConfig = Inr router_a_x \<and>
   add_route router_a_x ''/a/fixed'' [''GET''] ''second'' RouteConfig = Inr router_two \<and>
   match_route route_a_x ''/a/fixed'' ''GET'' = Some [(''x'', PStr ''fixed'')] \<and>
   match_route route_a_fixed ''/a/fixed'' ''GET'' = Some [] \<and>
   fst (find_route router_two ''/a/fixed'' ''GET'') =
     Some (''first'', [(''x'', PStr ''fixed'')], RouteConfig)"
proof -
  have c: "route_cache router_two (''/a/fixed'', ''GET'') = None"
    by (simp add: router_two_def)
  have r: "routes router_two = [] @ route_a_x # [route_a_fixed]"
    by (simp add: router_two_def)
  have n: "\<forall>x \<in> set []. match_route x ''/a/fixed'' ''GET'' = None"
    by simp
  have "fst (find_route router_two ''/a/fixed'' ''GET'') =
      Some (handler route_a_x, [(''x'', PStr ''fixed'')], config route_a_x)"
    using find_route_first_match[OF c r n match_a_x_fixed] by simp
  then show ?thesis
    by (simp add: add_route_a_x add_route_a_fixed match_a_x_fixed match_a_fixed_fixed
        route_a_x_sel)
qed

text \<open>
  C10. A lookup changes the router in its cache only: the routes are the same afterwards,
  and the cache is either unchanged or, when the key was not cached and a route was found,
  extended by one entry, under the key of the lookup, holding the result returned.
\<close>

theorem find_route_frame:
  "case find_route r p m of
     (res, r', n) \<Rightarrow>
       r' = r\<lparr>route_cache := route_cache r'\<rparr> \<and> routes r' = routes r \<and>
       (route_cache r' = route_cache r \<or>
        (route_cache r (p, m) = None \<and>
         (\<exists>v. res = Some v \<and> route_cache r' = (route_cache r)((p, m) \<mapsto> v))))"
  by (auto simp: find_route_def split: option.splits prod.splits)

text \<open>
  The invariant of the cache: every entry is what a scan of the current routes returns for
  its key.
\<close>

definition cache_valid :: "'h router \<Rightarrow> bool" where
  "cache_valid r =
     (\<forall>p m res. route_cache r (p, m) = Some res \<longrightarrow>
        fst (scan_routes (routes r) p m) = Some res)"

text \<open>
  C7. The invariant holds of the new router and every lookup keeps it, so under it a lookup
  returns what a scan of the current routes returns. An \<open>add_route\<close> that returns has
  appended the route it constructed and left the cache empty; the invariant holds again,
  and the next lookup, for any key, is a scan of the new routes.
\<close>

theorem add_route_invalidates_cache:
  "cache_valid (Router :: 'h router) \<and>
   (cache_valid r \<longrightarrow>
      cache_valid (fst (snd (find_route r q m))) \<and>
      fst (find_route r q m) = fst (scan_routes (routes r) q m)) \<and>
   (add_route r p ms h cfg = Inr r' \<longrightarrow>
      (\<exists>rt. Route p ms h (Some cfg) = Inr rt \<and> routes r' = routes r @ [rt]) \<and>
      route_cache r' = Map.empty \<and> cache_valid r' \<and>
      fst (find_route r' q m) = fst (scan_routes (routes r') q m) \<and>
      snd (snd (find_route r' q m)) = snd (scan_routes (routes r') q m))"
proof (intro conjI impI)
  show "cache_valid (Router :: 'h router)"
    by (simp add: cache_valid_def Router_def)
next
  assume "cache_valid r"
  then show "cache_valid (fst (snd (find_route r q m)))"
    by (auto simp: cache_valid_def find_route_def split: option.splits prod.splits)
next
  assume "cache_valid r"
  then show "fst (find_route r q m) = fst (scan_routes (routes r) q m)"
    by (auto simp: cache_valid_def find_route_def split: option.splits prod.splits)
next
  assume a: "add_route r p ms h cfg = Inr r'"
  then show "\<exists>rt. Route p ms h (Some cfg) = Inr rt \<and> routes r' = routes r @ [rt]"
    by (auto simp: add_route_def split: sum.splits)
  from a show e: "route_cache r' = Map.empty"
    by (auto simp: add_route_def split: sum.splits)
  from e show "cache_valid r'"
    by (simp add: cache_valid_def)
  from e show "fst (find_route r' q m) = fst (scan_routes (routes r') q m)"
    by (auto simp: find_route_def split: option.splits prod.splits)
  from e show "snd (snd (find_route r' q m)) = snd (scan_routes (routes r') q m)"
    by (auto simp: find_route_def split: option.splits prod.splits)
qed

text \<open>
  The fixture of C7: a lookup of \<open>/a/fixed\<close> fills the cache of the one-route table; adding
  \<open>/a/fixed\<close> empties it, and the next lookup of the same key calls \<open>route.match\<close> again.
\<close>

definition router_a_x_warm :: "string router" where
  "router_a_x_warm = fst (snd (find_route router_a_x ''/a/fixed'' ''GET''))"

theorem add_route_invalidates_cache_witness:
  "cache_valid router_a_x_warm \<and>
   route_cache router_a_x_warm (''/a/fixed'', ''GET'') =
     Some (''first'', [(''x'', PStr ''fixed'')], RouteConfig) \<and>
   snd (snd (find_route router_a_x_warm ''/a/fixed'' ''GET'')) = 0 \<and>
   add_route router_a_x_warm ''/a/fixed'' [''GET''] ''second'' RouteConfig = Inr router_two \<and>
   route_cache router_two = Map.empty \<and>
   cache_valid router_two \<and>
   find_route router_two ''/a/fixed'' ''GET'' =
     (Some (''first'', [(''x'', PStr ''fixed'')], RouteConfig),
      router_two\<lparr>route_cache :=
        [(''/a/fixed'', ''GET'') \<mapsto> (''first'', [(''x'', PStr ''fixed'')], RouteConfig)]\<rparr>,
      1)"
proof -
  have v0: "cache_valid router_a_x"
    by (simp add: cache_valid_def router_a_x_def)
  have w: "router_a_x_warm =
      router_a_x\<lparr>route_cache :=
        [(''/a/fixed'', ''GET'') \<mapsto> (''first'', [(''x'', PStr ''fixed'')], RouteConfig)]\<rparr>"
    by (simp add: router_a_x_warm_def find_route_def router_a_x_def match_a_x_fixed
        route_a_x_sel)
  have "cache_valid router_a_x \<longrightarrow>
      cache_valid (fst (snd (find_route router_a_x ''/a/fixed'' ''GET'')))"
    using add_route_invalidates_cache[of router_a_x "''/a/fixed''" "''GET''" "[]" "[]" "[]"
        RouteConfig router_a_x]
    by blast
  with v0 have v1: "cache_valid router_a_x_warm"
    unfolding router_a_x_warm_def by blast
  have a: "add_route router_a_x_warm ''/a/fixed'' [''GET''] ''second'' RouteConfig = Inr router_two"
    by (simp add: add_route_def Route_a_fixed w router_a_x_def router_two_def)
  have hit: "snd (snd (find_route router_a_x_warm ''/a/fixed'' ''GET'')) = 0"
    by (simp add: w find_route_def)
  have f: "find_route router_two ''/a/fixed'' ''GET'' =
     (Some (''first'', [(''x'', PStr ''fixed'')], RouteConfig),
      router_two\<lparr>route_cache :=
        [(''/a/fixed'', ''GET'') \<mapsto> (''first'', [(''x'', PStr ''fixed'')], RouteConfig)]\<rparr>,
      1)"
    by (simp add: find_route_def router_two_def match_a_x_fixed route_a_x_sel)
  from add_route_invalidates_cache[of router_a_x_warm "''/a/fixed''" "''GET''" "''/a/fixed''"
      "[''GET'']" "''second''" RouteConfig router_two] a
  have e: "route_cache router_two = Map.empty \<and> cache_valid router_two"
    by blast
  have c: "route_cache router_a_x_warm (''/a/fixed'', ''GET'') =
      Some (''first'', [(''x'', PStr ''fixed'')], RouteConfig)"
    by (simp add: w)
  from v1 c hit a e f show ?thesis
    by blast
qed


section \<open>Route matching: lemmas\<close>

text \<open>Routes of a test table with a typed placeholder each.\<close>

definition route_items :: "string route" where
  "route_items =
     \<lparr>path = ''/items/{id:int}'', methods = [''GET''], handler = ''get_item'',
      config = RouteConfig,
      pattern = map Lit ''/items/'' @ [Group ''id'' [Rep Digit 1]],
      param_types = [(''id'', ''int'')]\<rparr>"

definition route_flag :: "string route" where
  "route_flag =
     \<lparr>path = ''/f/{flag:bool}'', methods = [''GET''], handler = ''get_flag'',
      config = RouteConfig,
      pattern = map Lit ''/f/'' @ [Group ''flag'' [Rep NotSlash 1]],
      param_types = [(''flag'', ''bool'')]\<rparr>"

lemma Route_items: "Route ''/items/{id:int}'' [''GET''] ''get_item'' None = Inr route_items"
  by code_simp

lemma Route_flag: "Route ''/f/{flag:bool}'' [''GET''] ''get_flag'' None = Inr route_flag"
  by code_simp

lemma match_items_42: "match_route route_items ''/items/42'' ''GET'' = Some [(''id'', PInt 42)]"
  by code_simp

lemma match_items_abc: "match_route route_items ''/items/abc'' ''GET'' = None"
  by code_simp

lemma match_items_Lit_prefix:
  "match_items (map Lit l @ its) s =
     (if take (length l) s = l then match_items its (drop (length l) s) else None)"
proof (induction l arbitrary: s)
  case Nil
  then show ?case by simp
next
  case (Cons c l)
  then show ?case by (cases s) auto
qed

lemma first_match_all_None: "\<forall>k \<in> set ks. f k = None \<Longrightarrow> first_match f ks = None"
  by (induction ks) auto

lemma ends_Rep_last: "ends [Rep cs mn] s = rev [mn ..< Suc (length (takeWhile (in_cset cs) s))]"
proof -
  have "concat (map (\<lambda>k. [k]) xs) = xs" for xs :: "nat list"
    by (induction xs) auto
  then show ?thesis by simp
qed

lemma newline_not_digit: "\<not> is_digit newline"
  by (simp add: is_digit_def newline_def)

lemma drop_in_digit_run:
  assumes "k < length (takeWhile is_digit s)"
  shows "drop k s \<noteq> [] \<and> drop k s \<noteq> [newline]"
proof -
  define ds where "ds = takeWhile is_digit s"
  define r where "r = dropWhile is_digit s"
  have s: "s = ds @ r" by (simp add: ds_def r_def)
  have k: "k < length ds" using assms by (simp add: ds_def)
  have "ds ! k \<in> set ds" using k by simp
  then have d: "is_digit (ds ! k)"
    unfolding ds_def by (rule set_takeWhileD[THEN conjunct2])
  have "drop k ds = ds ! k # drop (Suc k) ds"
    using k by (simp add: Cons_nth_drop_Suc)
  then have "drop k s = ds ! k # drop (Suc k) ds @ r"
    using k by (simp add: s)
  with d newline_not_digit show ?thesis by auto
qed

lemma rev_upt_from_1: "0 < m \<Longrightarrow> rev [1 ..< Suc m] = m # rev [1 ..< m]"
  by simp

text \<open>
  A group of one or more digits that ends the pattern: it matches when the string is a
  non-empty run of digits, or such a run followed by one newline, and captures the digits.
\<close>

lemma match_digit_group:
  "match_items [Group n [Rep Digit 1]] s =
     (if takeWhile is_digit s \<noteq> [] \<and>
         (dropWhile is_digit s = [] \<or> dropWhile is_digit s = [newline])
      then Some [(n, takeWhile is_digit s)] else None)"
proof -
  define ds where "ds = takeWhile is_digit s"
  define r where "r = dropWhile is_digit s"
  define m where "m = length ds"
  define f where
    "f = (\<lambda>k. map_option (\<lambda>caps. (n, take k s) # caps) (match_items [] (drop k s)))"
  have i: "in_cset Digit = is_digit" by (rule ext) simp
  have e: "match_items [Group n [Rep Digit 1]] s = first_match f (rev [1 ..< Suc m])"
    unfolding f_def m_def ds_def by (simp only: match_items.simps ends_Rep_last i)
  have low: "\<forall>k \<in> set (rev [1 ..< m]). f k = None"
    using drop_in_digit_run[of _ s] by (auto simp: f_def m_def ds_def)
  have t: "take m s = ds" "drop m s = r"
    by (simp_all add: m_def ds_def r_def takeWhile_eq_take[symmetric] dropWhile_eq_drop[symmetric])
  have fm: "f m = (if r = [] \<or> r = [newline] then Some [(n, ds)] else None)"
    by (simp only: f_def t match_items.simps) simp
  have "first_match f (rev [1 ..< Suc m]) =
      (if ds \<noteq> [] \<and> (r = [] \<or> r = [newline]) then Some [(n, ds)] else None)"
  proof (cases "m = 0")
    case True
    then have "ds = []" by (simp add: m_def)
    with True show ?thesis by simp
  next
    case False
    then have ne: "ds \<noteq> []" by (auto simp: m_def)
    from False have "rev [1 ..< Suc m] = m # rev [1 ..< m]"
      by (intro rev_upt_from_1) simp
    then have "first_match f (rev [1 ..< Suc m]) =
        (case f m of Some x \<Rightarrow> Some x | None \<Rightarrow> first_match f (rev [1 ..< m]))"
      by (simp only: first_match.simps)
    with first_match_all_None[OF low] fm ne show ?thesis
      by simp
  qed
  with e show ?thesis by (simp add: ds_def r_def)
qed

lemma digit_not_space: "is_digit c \<Longrightarrow> \<not> is_space c"
  by (auto simp: is_digit_def is_space_def)

lemma digit_not_sign: "is_digit c \<Longrightarrow> c \<noteq> CHR ''+'' \<and> c \<noteq> CHR ''-'' \<and> c \<noteq> CHR ''_''"
  by (auto simp: is_digit_def)

lemma strip_digits:
  assumes "list_all is_digit ds"
  shows "strip ds = ds"
proof (cases ds)
  case Nil
  then show ?thesis by (simp add: strip_def)
next
  case (Cons c cs)
  have a: "dropWhile is_space xs = xs" if "xs \<noteq> []" "\<not> is_space (hd xs)" for xs
    using that by (cases xs) auto
  have "\<not> is_space (hd ds)" using assms Cons digit_not_space by simp
  then have 1: "dropWhile is_space ds = ds" using a Cons by simp
  have "rev ds \<noteq> []" using Cons by simp
  then have "hd (rev ds) \<in> set (rev ds)" by (rule hd_in_set)
  then have "is_digit (hd (rev ds))"
    using assms by (simp add: list_all_iff)
  then have "\<not> is_space (hd (rev ds))"
    using digit_not_space by blast
  then have 2: "dropWhile is_space (rev ds) = rev ds" using a[of "rev ds"] Cons by simp
  show ?thesis by (simp add: strip_def 1 2)
qed

lemma digit_groups_digits: "list_all is_digit ds \<Longrightarrow> ds \<noteq> [] \<Longrightarrow> digit_groups ds"
  by (induction ds rule: digit_groups.induct) (auto dest: digit_not_sign)

text \<open>
  \<open>int\<close> of a non-empty string of digits is its decimal value when the string has at most
  4300 digits, and a \<open>ValueError\<close> when it has more.
\<close>

lemma py_int_digits:
  assumes "list_all is_digit ds" and "ds \<noteq> []"
  shows "py_int ds =
    (if length ds \<le> default_max_str_digits then Some (digits_val ds) else None)"
proof -
  from assms obtain c cs where ds: "ds = c # cs" by (cases ds) auto
  have f: "filter is_digit ds = ds" using assms by (simp add: list_all_iff)
  have c: "c \<noteq> CHR ''+'' \<and> c \<noteq> CHR ''-''" using assms ds digit_not_sign by simp
  have s: "strip (c # cs) = c # cs" using strip_digits[OF assms(1)] ds by simp
  have g: "digit_groups (c # cs)" using digit_groups_digits[OF assms] ds by simp
  have f': "filter is_digit (c # cs) = c # cs" using f ds by simp
  show ?thesis
    unfolding ds py_int_def unsigned_int_def s using c g f' by simp
qed

text \<open>
  What the route \<open>/items/{id:int}\<close> accepts: the paths \<open>/items/\<close> followed by one or
  more digits, and those paths followed by one newline. The parameter is the integer when
  the run has at most 4300 digits; a longer run is kept as the string it is.
\<close>

lemma route_items_match:
  "match_route route_items p ''GET'' =
     (if take 7 p = ''/items/'' \<and> takeWhile is_digit (drop 7 p) \<noteq> [] \<and>
         (dropWhile is_digit (drop 7 p) = [] \<or> dropWhile is_digit (drop 7 p) = [newline])
      then Some [(''id'',
                  if length (takeWhile is_digit (drop 7 p)) \<le> default_max_str_digits
                  then PInt (digits_val (takeWhile is_digit (drop 7 p)))
                  else PStr (takeWhile is_digit (drop 7 p)))]
      else None)"
proof -
  define t where "t = drop 7 p"
  define ds where "ds = takeWhile is_digit t"
  have d: "list_all is_digit ds"
    by (auto simp: ds_def list_all_iff dest: set_takeWhileD)
  have len: "length ''/items/'' = 7" by simp
  have pre: "match_items (map Lit ''/items/'' @ [Group ''id'' [Rep Digit 1]]) p =
      (if take 7 p = ''/items/'' then match_items [Group ''id'' [Rep Digit 1]] (drop 7 p) else None)"
    using match_items_Lit_prefix[of "''/items/''" "[Group ''id'' [Rep Digit 1]]" p]
    unfolding len .
  have sel: "pattern route_items = map Lit ''/items/'' @ [Group ''id'' [Rep Digit 1]]"
    "param_types route_items = [(''id'', ''int'')]" "methods route_items = [''GET'']"
    by (simp_all add: route_items_def)
  have mi: "match_items (pattern route_items) p =
      (if take 7 p = ''/items/'' \<and> ds \<noteq> [] \<and>
          (dropWhile is_digit t = [] \<or> dropWhile is_digit t = [newline])
       then Some [(''id'', ds)] else None)"
    unfolding sel pre match_digit_group ds_def t_def by simp
  have cv: "convert_params [(''id'', ''int'')] [(''id'', ds)] =
      [(''id'', if length ds \<le> default_max_str_digits then PInt (digits_val ds) else PStr ds)]"
    if "ds \<noteq> []"
    using py_int_digits[OF d that] by (simp add: convert_params_def convert_param_def)
  have "match_route route_items p ''GET'' =
      (if take 7 p = ''/items/'' \<and> ds \<noteq> [] \<and>
          (dropWhile is_digit t = [] \<or> dropWhile is_digit t = [newline])
       then Some [(''id'',
                   if length ds \<le> default_max_str_digits then PInt (digits_val ds) else PStr ds)]
       else None)"
    unfolding match_route_def mi sel(2,3) using cv by auto
  then show ?thesis by (simp only: ds_def t_def)
qed

section \<open>Route matching: claims\<close>

text \<open>
  C8, at the input where the code departs from it. The route compiled from
  \<open>/items/{id:int}\<close> accepts the path \<open>/items/42\<close> followed by a newline, whose last segment
  is not made of digits only, and binds \<open>id\<close> to 42: the anchor \<open>$\<close> of the compiled
  pattern also matches just before a newline that ends the path.
\<close>

theorem int_placeholder_trailing_newline:
  "Route ''/items/{id:int}'' [''GET''] ''get_item'' None = Inr route_items \<and>
   \<not> list_all is_digit (''42'' @ [newline]) \<and>
   match_route route_items (''/items/'' @ ''42'' @ [newline]) ''GET'' = Some [(''id'', PInt 42)]"
proof -
  have "\<not> list_all is_digit (''42'' @ [newline])"
    by (simp add: newline_not_digit)
  moreover have "match_route route_items (''/items/'' @ ''42'' @ [newline]) ''GET'' =
      Some [(''id'', PInt 42)]"
    by code_simp
  ultimately show ?thesis using Route_items by simp
qed

text \<open>
  C9. The conversion of a captured string declared \<open>bool\<close> is the membership of its
  lowercase form in \<open>true\<close>, \<open>1\<close>, \<open>yes\<close>: a boolean for every string, there is no failure
  branch. So when a route matches and a group \<open>n\<close> declared \<open>bool\<close> captured \<open>v\<close>, the
  parameters returned bind \<open>n\<close> to that boolean.
\<close>

theorem bool_param_coercion:
  assumes "m \<in> set (methods rt)" and "match_items (pattern rt) p = Some gd"
    and "(n, v) \<in> set gd" and "map_of (param_types rt) n = Some ''bool''"
  shows "convert_param ''bool'' v = PBool (lower v \<in> set [''true'', ''1'', ''yes'']) \<and>
    (\<exists>ps. match_route rt p m = Some ps \<and>
       (n, PBool (lower v \<in> set [''true'', ''1'', ''yes''])) \<in> set ps)"
proof -
  have c: "convert_param ''bool'' v = PBool (lower v \<in> set [''true'', ''1'', ''yes''])"
    by (simp add: convert_param_def)
  have "(n, convert_param ''bool'' v) \<in> set (convert_params (param_types rt) gd)"
    using assms(3,4) by (force simp: convert_params_def)
  with c assms(1,2) show ?thesis
    by (simp add: match_route_def)
qed

text \<open>
  The route \<open>/f/{flag:bool}\<close> on the six values of the spec: \<open>True\<close>, \<open>1\<close> and \<open>yes\<close> give
  true; \<open>0\<close>, \<open>no\<close> and \<open>maybe\<close> give false.
\<close>

theorem bool_param_coercion_witness:
  "match_route route_flag ''/f/True'' ''GET'' = Some [(''flag'', PBool True)] \<and>
   match_route route_flag ''/f/1'' ''GET'' = Some [(''flag'', PBool True)] \<and>
   match_route route_flag ''/f/yes'' ''GET'' = Some [(''flag'', PBool True)] \<and>
   match_route route_flag ''/f/0'' ''GET'' = Some [(''flag'', PBool False)] \<and>
   match_route route_flag ''/f/no'' ''GET'' = Some [(''flag'', PBool False)] \<and>
   match_route route_flag ''/f/maybe'' ''GET'' = Some [(''flag'', PBool False)] \<and>
   (\<exists>ps. match_route route_flag ''/f/True'' ''GET'' = Some ps \<and>
      (''flag'', PBool (lower ''True'' \<in> set [''true'', ''1'', ''yes''])) \<in> set ps)"
proof -
  have m: "''GET'' \<in> set (methods route_flag)"
    by (simp add: route_flag_def)
  have g: "match_items (pattern route_flag) ''/f/True'' = Some [(''flag'', ''True'')]"
    by code_simp
  have v: "(''flag'', ''True'') \<in> set [(''flag'', ''True'')]"
    by simp
  have t: "map_of (param_types route_flag) ''flag'' = Some ''bool''"
    by (simp add: route_flag_def)
  have e1: "match_route route_flag ''/f/True'' ''GET'' = Some [(''flag'', PBool True)]"
    by code_simp
  have e2: "match_route route_flag ''/f/1'' ''GET'' = Some [(''flag'', PBool True)]"
    by code_simp
  have e3: "match_route route_flag ''/f/yes'' ''GET'' = Some [(''flag'', PBool True)]"
    by code_simp
  have e4: "match_route route_flag ''/f/0'' ''GET'' = Some [(''flag'', PBool False)]"
    by code_simp
  have e5: "match_route route_flag ''/f/no'' ''GET'' = Some [(''flag'', PBool False)]"
    by code_simp
  have e6: "match_route route_flag ''/f/maybe'' ''GET'' = Some [(''flag'', PBool False)]"
    by code_simp
  from bool_param_coercion[OF m g v t] e1 e2 e3 e4 e5 e6 show ?thesis
    by blast
qed

section \<open>Result normalization: claims\<close>

text \<open>
  The three branches of \<open>_create_response\<close> that return: a response is passed through, a
  dictionary or a list becomes a JSON response, and a value that is none of these and
  not a string is wrapped under the key \<open>result\<close>.
\<close>

lemma create_response_returns:
  "create_response (RResp r) = Inr r"
  "create_response (RVal (PDict d)) = Inr (JSONResponse (PDict d) 200)"
  "create_response (RVal (PList l)) = Inr (JSONResponse (PList l) 200)"
  "\<forall>d. v \<noteq> PDict d \<Longrightarrow> \<forall>l. v \<noteq> PList l \<Longrightarrow> \<forall>s. v \<noteq> PStr s \<Longrightarrow>
   create_response (RVal v) = Inr (JSONResponse (PDict [(''result'', v)]) 200)"
  by (cases v; simp)+

text \<open>
  C3, at the input where the code departs from it. For a handler result that is a string
  \<open>_create_response\<close> does not return a text response: it raises a NameError, since the
  name \<open>TextResponse\<close> is not imported in app.py.
\<close>

theorem create_response_str_raises:
  "create_response (RVal (PStr ''hello'')) =
     Inl (builtin_exn ''NameError'' ''name 'TextResponse' is not defined'') \<and>
   create_response (RVal (PStr ''hello'')) \<noteq> Inr (TextResponse ''hello'' 200)"
  by simp


section \<open>Middleware: claims\<close>







lemma FlashAPI_handlers:
  "exception_handlers FlashAPI =
     [(KClass ''HTTPException'', handle_http_exception),
      (KStatus 500, handle_500_exception),
      (KStatus 404, handle_404_exception)]"
  by (simp add: FlashAPI_def setup_default_handlers_def add_exception_handler_def)






























section \<open>The dispatcher: claims\<close>

text \<open>
  A test application: the default application with a timing interceptor and one route,
  \<open>/boom\<close>, whose handler raises a ValueError.
\<close>

definition boom :: handler_fn where
  "boom = \<lparr>h_params = [], h_async = True,
           h_call = (\<lambda>args. Inl (builtin_exn ''ValueError'' ''boom''))\<rparr>"

definition timing :: middleware where
  "timing =
     \<lparr>mw_name = ''TimingMiddleware'',
      before_request = Some (\<lambda>r. Inr (Some r)),
      after_request =
        Some (\<lambda>rq rs. Inr (Some (rs\<lparr>headers := dict_set ''x-response-time'' ''1.00ms'' (headers rs)\<rparr>)))\<rparr>"

definition route_boom :: "handler_fn route" where
  "route_boom =
     \<lparr>path = ''/boom'', methods = [''GET''], handler = boom, config = RouteConfig,
      pattern = map Lit ''/boom'', param_types = []\<rparr>"

definition boom_app :: app where
  "boom_app =
     \<lparr>router = \<lparr>routes = [route_boom], route_cache = Map.empty\<rparr>,
      app_middleware = [timing],
      exception_handlers =
        [(KClass ''HTTPException'', handle_http_exception),
         (KStatus 500, handle_500_exception),
         (KStatus 404, handle_404_exception)]\<rparr>"

definition get_boom :: request where
  "get_boom = \<lparr>req_method = ''GET'', req_path = ''/boom'', req_headers = [], path_params = []\<rparr>"

definition get_missing :: request where
  "get_missing = \<lparr>req_method = ''GET'', req_path = ''/nope'', req_headers = [], path_params = []\<rparr>"

definition isinstance_TypeError :: exn where
  "isinstance_TypeError =
     builtin_exn ''TypeError'' ''isinstance() arg 2 must be a type, a tuple of types, or a union''"

lemma compile_boom: "compile_pattern ''/boom'' = Inr (map Lit ''/boom'', [])"
  by code_simp

lemma boom_app_built:
  "app_add_route (add_middleware FlashAPI timing) ''/boom'' [''GET''] boom RouteConfig = Inr boom_app"
  by (simp add: app_add_route_def add_middleware_def add_route_def Route_def compile_boom
      boom_app_def route_boom_def FlashAPI_handlers)
    (simp add: FlashAPI_def setup_default_handlers_def add_exception_handler_def Router_def)

lemma match_boom: "match_route route_boom ''/boom'' ''GET'' = Some []"
  by (simp add: match_route_def route_boom_def convert_params_def)

lemma match_boom_missing: "match_route route_boom ''/nope'' ''GET'' = None"
  by (simp add: match_route_def route_boom_def)

lemma route_boom_sel: "handler route_boom = boom" "config route_boom = RouteConfig"
  by (simp_all add: route_boom_def)

lemma route_and_call_boom:
  "fst (route_and_call (router boom_app) get_boom) = Inl (builtin_exn ''ValueError'' ''boom'')"
  by (simp add: route_and_call_def find_route_def boom_app_def match_boom route_boom_sel
      get_boom_def invoke_def boom_def)

lemma handle_exception_unclassified:
  "handle_exception (exception_handlers FlashAPI) (builtin_exn ''ValueError'' ''boom'') =
     Inl isinstance_TypeError"
  by (simp add: FlashAPI_handlers isinstance_def builtin_exn_def isinstance_TypeError_def)

lemma dispatch_boom:
  "handle_http_request boom_app get_boom =
     \<lparr>outcome = Escaped isinstance_TypeError,
      app_after = boom_app\<lparr>router := (router boom_app)\<lparr>route_cache :=
         [(''/boom'', ''GET'') \<mapsto> (boom, [], RouteConfig)]\<rparr>\<rparr>,
      pre_calls = [''TimingMiddleware''], post_calls = []\<rparr>"
proof -
  have pre: "run_pre (app_middleware boom_app) get_boom = ([''TimingMiddleware''], get_boom, None)"
    by (simp add: boom_app_def timing_def)
  have rc: "route_and_call (router boom_app) get_boom =
      (Inl (builtin_exn ''ValueError'' ''boom''),
       (router boom_app)\<lparr>route_cache := [(''/boom'', ''GET'') \<mapsto> (boom, [], RouteConfig)]\<rparr>,
       get_boom\<lparr>path_params := []\<rparr>)"
    by (simp add: route_and_call_def find_route_def boom_app_def match_boom route_boom_sel
        get_boom_def invoke_def boom_def)
  have ex: "isinstance (builtin_exn ''ValueError'' ''boom'') ''Exception''"
    by (simp add: isinstance_def builtin_exn_def)
  have he: "handle_exception (exception_handlers boom_app) (builtin_exn ''ValueError'' ''boom'') =
      Inl isinstance_TypeError"
    using handle_exception_unclassified by (simp add: FlashAPI_handlers boom_app_def)
  show ?thesis
    by (simp add: handle_http_request_def pre rc ex he)
qed

text \<open>
  The routing miss, for comparison: the synthesized HTTPException matches the first key, a
  404 response is produced, the post-hook runs on it and it is sent.
\<close>

lemma dispatch_missing:
  "outcome (handle_http_request boom_app get_missing) =
     Sent ((JSONResponse
              (PDict [(''error'', PStr ''Route /nope not found''), (''status_code'', PInt 404)]) 404)
           \<lparr>headers := [(''x-response-time'', ''1.00ms'')]\<rparr>) \<and>
   post_calls (handle_http_request boom_app get_missing) = [''TimingMiddleware'']"
proof -
  have pre: "run_pre (app_middleware boom_app) get_missing =
      ([''TimingMiddleware''], get_missing, None)"
    by (simp add: boom_app_def timing_def)
  have rc: "route_and_call (router boom_app) get_missing =
      (Inl (HTTPException 404 ''Route /nope not found''), router boom_app, get_missing)"
    by (simp add: route_and_call_def find_route_def boom_app_def match_boom_missing get_missing_def)
  have ex: "isinstance (HTTPException 404 ''Route /nope not found'') ''Exception''"
    by (simp add: isinstance_def HTTPException_def)
  have he: "handle_exception (exception_handlers boom_app) (HTTPException 404 ''Route /nope not found'') =
      Inr (JSONResponse
             (PDict [(''error'', PStr ''Route /nope not found''), (''status_code'', PInt 404)]) 404)"
    by (simp add: boom_app_def isinstance_def HTTPException_def handle_http_exception_def)
  have po: "run_post (app_middleware boom_app) get_missing
        (JSONResponse (PDict [(''error'', PStr ''Route /nope not found''), (''status_code'', PInt 404)]) 404) =
      ([''TimingMiddleware''],
       Inr ((JSONResponse
              (PDict [(''error'', PStr ''Route /nope not found''), (''status_code'', PInt 404)]) 404)
           \<lparr>headers := [(''x-response-time'', ''1.00ms'')]\<rparr>))"
    by (simp add: run_post_def boom_app_def timing_def JSONResponse_def)
  show ?thesis
    by (simp add: handle_http_request_def pre rc ex he po emit_def) (simp add: JSONResponse_def)
qed

text \<open>
  With class keys only, none of them matching, the walk reaches the default response: status
  500 and the generic body with the text of the failure.
\<close>

lemma handle_exception_default:
  "\<forall>(k, h) \<in> set hs. \<exists>cls. k = KClass cls \<and> \<not> isinstance exc cls \<Longrightarrow>
   handle_exception hs exc =
     Inr (JSONResponse
            (PDict [(''error'', PStr ''Internal Server Error''), (''message'', PStr (exc_text exc))])
            500)"
proof (induction hs)
  case Nil
  then show ?case by simp
next
  case (Cons kh hs)
  obtain k h where kh: "kh = (k, h)" by (cases kh)
  with Cons.prems obtain cls where k: "k = KClass cls" and n: "\<not> isinstance exc cls"
    by auto
  from n have "cls \<noteq> exc_class exc" by (auto simp: isinstance_def)
  with Cons kh k n show ?case by simp
qed

text \<open>
  Under the handlers the constructor installs, every failure that is not an HTTPException
  meets the key 500 and ends in the TypeError; registering a handler for another class
  afterwards does not change that, since the new key comes after the status codes.
\<close>

lemma handle_exception_default_table:
  "\<not> isinstance exc ''HTTPException'' \<Longrightarrow>
   handle_exception (exception_handlers FlashAPI) exc = Inl isinstance_TypeError"
  by (auto simp: FlashAPI_handlers isinstance_TypeError_def isinstance_def)

lemma handle_exception_registered_later:
  "\<not> isinstance exc ''HTTPException'' \<Longrightarrow> cls \<noteq> ''HTTPException'' \<Longrightarrow>
   handle_exception (exception_handlers (add_exception_handler FlashAPI (KClass cls) h)) exc =
     Inl isinstance_TypeError"
  by (auto simp: add_exception_handler_def FlashAPI_handlers isinstance_TypeError_def isinstance_def)

lemma handle_exception_http:
  "handle_exception (exception_handlers FlashAPI) (HTTPException code det) =
     Inr (JSONResponse (PDict [(''error'', PStr det), (''status_code'', PInt code)]) code)"
  by (simp add: FlashAPI_handlers isinstance_def HTTPException_def handle_http_exception_def)

text \<open>
  C1, at the input where the code departs from it. In the test application, built by the
  registration functions from the default application, the handler of \<open>/boom\<close> raises a
  ValueError. The request produces no response: the walk over the exception handlers
  reaches the key 500, \<open>isinstance\<close> raises a TypeError inside the \<open>except\<close> block, and
  that TypeError leaves \<open>_handle_http_request\<close>.
\<close>

theorem dispatch_failure_escapes:
  "app_add_route (add_middleware FlashAPI timing) ''/boom'' [''GET''] boom RouteConfig = Inr boom_app \<and>
   fst (route_and_call (router boom_app) get_boom) = Inl (builtin_exn ''ValueError'' ''boom'') \<and>
   outcome (handle_http_request boom_app get_boom) = Escaped isinstance_TypeError"
  by (simp add: boom_app_built route_and_call_boom dispatch_boom)

text \<open>
  C2, at the input where the code departs from it. A ValueError is an instance of no
  registered exception class, yet its resolution under the default handlers returns no
  response: it raises a TypeError at the key 500. In the test application the post-phase
  then does not run: the timing interceptor's post-hook is not called.
\<close>

theorem unclassified_failure_not_resolved:
  "\<not> isinstance (builtin_exn ''ValueError'' ''boom'') ''HTTPException'' \<and>
   handle_exception (exception_handlers FlashAPI) (builtin_exn ''ValueError'' ''boom'') =
     Inl isinstance_TypeError \<and>
   post_calls (handle_http_request boom_app get_boom) = []"
proof -
  have "\<not> isinstance (builtin_exn ''ValueError'' ''boom'') ''HTTPException''"
    by (simp add: isinstance_def builtin_exn_def)
  then show ?thesis
    by (simp add: handle_exception_unclassified dispatch_boom)
qed


end
